theory Spec2Isabelle
  imports Complex_Main
begin

section \<open>Python values\<close>

text \<open>
  A Python \<open>str\<close> is a sequence of Unicode code points, so it is modelled as a list of
  natural numbers.  \<open>lit\<close> turns an ASCII literal of the source into such a list.
\<close>

type_synonym pystr = "nat list"

definition lit :: "string \<Rightarrow> pystr" where
  "lit s = map of_char s"

text \<open>The apostrophe-quoted form \<open>'name'\<close> used inside interpreter messages.\<close>

definition quoted :: "pystr \<Rightarrow> pystr" where
  "quoted s = 39 # s @ [39]"

text \<open>
  Floats occur only as decoded JSON numbers; what the code observes of them is whether
  they are zero.  \<open>Finite q\<close> stands for a finite value other than negative zero.
\<close>

datatype pyfloat = Finite rat | NegZero | PosInf | NegInf | NaN

text \<open>
  The values \<open>response.json()\<close> can produce, and the envelopes built by the code.  A
  \<open>dict\<close> keeps its insertion order, so it is an association list; lookup takes the
  first binding of a key.
\<close>

datatype pyval =
    PNone
  | PBool bool
  | PInt int
  | PFloat pyfloat
  | PStr pystr
  | PList "pyval list"
  | PDict "(pystr \<times> pyval) list"

type_synonym pydict = "(pystr \<times> pyval) list"

text \<open>Truth value testing, as \<open>if x\<close>, \<open>not x\<close> and \<open>x or y\<close> perform it.\<close>

fun truthy :: "pyval \<Rightarrow> bool" where
  "truthy PNone = False"
| "truthy (PBool b) = b"
| "truthy (PInt i) = (i \<noteq> 0)"
| "truthy (PFloat f) = (f \<noteq> Finite 0 \<and> f \<noteq> NegZero)"
| "truthy (PStr s) = (s \<noteq> [])"
| "truthy (PList xs) = (xs \<noteq> [])"
| "truthy (PDict d) = (d \<noteq> [])"

text \<open>\<open>type(x).__name__\<close>, as it appears in interpreter error messages.\<close>

fun type_name :: "pyval \<Rightarrow> pystr" where
  "type_name PNone = lit ''NoneType''"
| "type_name (PBool b) = lit ''bool''"
| "type_name (PInt i) = lit ''int''"
| "type_name (PFloat f) = lit ''float''"
| "type_name (PStr s) = lit ''str''"
| "type_name (PList xs) = lit ''list''"
| "type_name (PDict d) = lit ''dict''"

section \<open>Exceptions\<close>

text \<open>
  An exception value is its class together with \<open>str(e)\<close>.  Every class listed is a
  subclass of \<open>Exception\<close>; \<open>TimeoutException\<close> stands for \<open>httpx.TimeoutException\<close>
  and its subclasses.  Process-level signals that derive from \<open>BaseException\<close> only
  (\<open>KeyboardInterrupt\<close>, \<open>SystemExit\<close>) are not results of a call and are not modelled.
\<close>

datatype exn_class =
    TimeoutException
  | TransportError
  | JSONDecodeError
  | AttributeError
  | TypeError
  | IndexError
  | APIError
  | OtherException

datatype exn = Exn exn_class pystr

fun str_of_exn :: "exn \<Rightarrow> pystr" where
  "str_of_exn (Exn c s) = s"

fun is_timeout :: "exn \<Rightarrow> bool" where
  "is_timeout (Exn c s) = (c = TimeoutException)"

text \<open>Sequencing of computations that may raise.\<close>

fun bind :: "exn + 'a \<Rightarrow> ('a \<Rightarrow> exn + 'b) \<Rightarrow> exn + 'b" where
  "bind (Inl e) f = Inl e"
| "bind (Inr x) f = f x"

definition no_attribute :: "pystr \<Rightarrow> pystr \<Rightarrow> pystr" where
  "no_attribute tn attr = quoted tn @ lit '' object has no attribute '' @ quoted attr"

text \<open>
  \<open>x.get(k, dflt)\<close>: the attribute lookup \<open>x.get\<close> comes first and succeeds on a
  \<open>dict\<close> only; on every other decoded value it raises \<open>AttributeError\<close>, before the
  arguments are evaluated.
\<close>

definition dict_get :: "pydict \<Rightarrow> pystr \<Rightarrow> pyval \<Rightarrow> pyval" where
  "dict_get d k dflt = (case map_of d k of None \<Rightarrow> dflt | Some v \<Rightarrow> v)"

fun attr_get :: "pyval \<Rightarrow> exn + pydict" where
  "attr_get (PDict d) = Inr d"
| "attr_get v = Inl (Exn AttributeError (no_attribute (type_name v) (lit ''get'')))"

definition py_get :: "pyval \<Rightarrow> pystr \<Rightarrow> pyval \<Rightarrow> exn + pyval" where
  "py_get v k dflt = bind (attr_get v) (\<lambda>d. Inr (dict_get d k dflt))"

text \<open>\<open>x[:10]\<close> and \<open>len(x)\<close>; the error of slicing a \<open>dict\<close> is passed in.\<close>

fun py_slice10 :: "exn \<Rightarrow> pyval \<Rightarrow> exn + pyval" where
  "py_slice10 de (PList xs) = Inr (PList (take 10 xs))"
| "py_slice10 de (PStr s) = Inr (PStr (take 10 s))"
| "py_slice10 de (PDict d) = Inl de"
| "py_slice10 de v =
     Inl (Exn TypeError (quoted (type_name v) @ lit '' object is not subscriptable''))"

fun py_len :: "pyval \<Rightarrow> exn + int" where
  "py_len (PList xs) = Inr (int (length xs))"
| "py_len (PStr s) = Inr (int (length s))"
| "py_len (PDict d) = Inr (int (length d))"
| "py_len v =
     Inl (Exn TypeError (lit ''object of type '' @ quoted (type_name v) @ lit '' has no len()''))"

section \<open>String operations\<close>

text \<open>
  \<open>str.upper()\<close> maps every code point through the full upper-case mapping of the
  Unicode database and concatenates the results.  On ASCII the mapping is written out;
  above ASCII it is the interpreter's table, which is a parameter of the model.
\<close>

definition ascii_upper :: "nat \<Rightarrow> nat" where
  "ascii_upper c = (if 97 \<le> c \<and> c \<le> 122 then c - 32 else c)"

definition str_upper :: "(nat \<Rightarrow> pystr) \<Rightarrow> pystr \<Rightarrow> pystr" where
  "str_upper tbl s = concat (map (\<lambda>c. if c < 128 then [ascii_upper c] else tbl c) s)"

text \<open>\<open>k in s\<close> on strings: \<open>k\<close> occurs in \<open>s\<close> as a contiguous substring.\<close>

fun starts_with :: "pystr \<Rightarrow> pystr \<Rightarrow> bool" where
  "starts_with s [] = True"
| "starts_with [] (k # ks) = False"
| "starts_with (c # cs) (k # ks) = (c = k \<and> starts_with cs ks)"

fun str_contains :: "pystr \<Rightarrow> pystr \<Rightarrow> bool" where
  "str_contains k [] = (k = [])"
| "str_contains k (c # cs) = (starts_with (c # cs) k \<or> str_contains k cs)"

text \<open>
  \<open>str.strip()\<close> removes leading and trailing white space; the code points are those
  for which \<open>str.isspace\<close> holds.
\<close>

definition is_space :: "nat \<Rightarrow> bool" where
  "is_space c \<longleftrightarrow>
     (9 \<le> c \<and> c \<le> 13) \<or> (28 \<le> c \<and> c \<le> 32) \<or> c = 133 \<or> c = 160 \<or> c = 5760 \<or>
     (8192 \<le> c \<and> c \<le> 8202) \<or> c = 8232 \<or> c = 8233 \<or> c = 8239 \<or> c = 8287 \<or> c = 12288"

definition str_strip :: "pystr \<Rightarrow> pystr" where
  "str_strip s = rev (dropWhile is_space (rev (dropWhile is_space s)))"

section \<open>The interpreter and the outside world\<close>

text \<open>
  What the Python runtime supplies and the repository does not define: the upper-case
  table above ASCII, \<open>repr\<close> of a value, and the exception raised when a \<open>dict\<close> is
  subscripted with a slice (its class and text differ between interpreter versions).
\<close>

record runtime =
  to_upper_full :: "nat \<Rightarrow> pystr"
  repr :: "pyval \<Rightarrow> pystr"
  dict_slice_error :: exn

text \<open>\<open>str(x)\<close>, also what an f-string inserts: a \<open>str\<close> is itself, anything else its \<open>repr\<close>.\<close>

definition py_str :: "runtime \<Rightarrow> pyval \<Rightarrow> pystr" where
  "py_str rt v = (case v of PStr s \<Rightarrow> s | _ \<Rightarrow> repr rt v)"

text \<open>The arguments of the one \<open>httpx.post\<close> call; the time-out is in seconds.\<close>

record http_request =
  url :: pystr
  headers :: "(pystr \<times> pystr) list"
  json_body :: pyval
  timeout :: nat

text \<open>Of a response the code uses only \<open>response.json()\<close>, which decodes the body or raises.\<close>

datatype response = Response "exn + pyval"

fun response_json :: "response \<Rightarrow> exn + pyval" where
  "response_json (Response r) = r"

text \<open>The arguments of \<open>client.messages.create\<close>, with the key the client was built with.\<close>

record llm_request =
  api_key :: pystr
  model :: pystr
  max_tokens :: nat
  system_prompt :: "pystr option"
  messages :: "(pystr \<times> pystr) list"

text \<open>A content block of the model's answer: a text block, or a block of another class.\<close>

datatype block = TextBlock pystr | OtherBlock pystr

text \<open>
  The world a call runs in: the process environment, the behaviour of the two remote
  services (what the \<open>n\<close>-th call with a given request does), and the log of the calls
  made so far.  A function of the program takes the world and returns the world after it.
\<close>

record world =
  environ :: "pystr \<rightharpoonup> pystr"
  http :: "nat \<Rightarrow> http_request \<Rightarrow> exn + response"
  http_calls :: "http_request list"
  llm :: "nat \<Rightarrow> llm_request \<Rightarrow> exn + block list"
  llm_calls :: "llm_request list"

definition os_getenv :: "world \<Rightarrow> pystr \<Rightarrow> pystr option" where
  "os_getenv w k = environ w k"

text \<open>\<open>not token\<close> for the result of \<open>os.getenv\<close>: true for \<open>None\<close> and for the empty string.\<close>

fun not_set :: "pystr option \<Rightarrow> bool" where
  "not_set None = True"
| "not_set (Some s) = (s = [])"

definition httpx_post :: "world \<Rightarrow> http_request \<Rightarrow> (exn + response) \<times> world" where
  "httpx_post w req =
     (http w (length (http_calls w)) req, w\<lparr>http_calls := http_calls w @ [req]\<rparr>)"

definition messages_create :: "world \<Rightarrow> llm_request \<Rightarrow> (exn + block list) \<times> world" where
  "messages_create w req =
     (llm w (length (llm_calls w)) req, w\<lparr>llm_calls := llm_calls w @ [req]\<rparr>)"

section \<open>The query executor\<close>

definition BERDL_API_URL :: pystr where
  "BERDL_API_URL = lit ''https://hub.berdl.kbase.us/apis/mcp/delta/tables/query''"

definition error_envelope :: "pyval \<Rightarrow> pyval" where
  "error_envelope v = PDict [(lit ''error'', v)]"

definition denylist :: "pystr list" where
  "denylist = [lit ''DROP'', lit ''DELETE'', lit ''UPDATE'', lit ''INSERT'', lit ''ALTER'']"

definition denied :: "runtime \<Rightarrow> pystr \<Rightarrow> bool" where
  "denied rt sql = list_ex (\<lambda>keyword. str_contains keyword (str_upper (to_upper_full rt) sql)) denylist"

definition berdl_request :: "pystr \<Rightarrow> pystr \<Rightarrow> http_request" where
  "berdl_request token sql =
     \<lparr>url = BERDL_API_URL,
      headers = [(lit ''Authorization'', lit ''Bearer '' @ token),
                 (lit ''Content-Type'', lit ''application/json'')],
      json_body = PDict [(lit ''query'', PStr sql), (lit ''limit'', PInt 100)],
      timeout = 30\<rparr>"

text \<open>The statements after \<open>data = response.json()\<close> inside the \<open>try\<close> block.\<close>

definition check_api_errors :: "pyval \<Rightarrow> exn + pyval" where
  "check_api_errors data =
     bind (py_get data (lit ''error'') PNone) (\<lambda>err.
     bind (if truthy err then Inr err else py_get data (lit ''error_type'') PNone) (\<lambda>flag.
       if truthy flag
       then bind (py_get data (lit ''message'') (PStr (lit ''Unknown API error''))) (\<lambda>msg.
              Inr (error_envelope msg))
       else Inr data))"

text \<open>The whole \<open>try\<close> block: the request, the decoding, the check.\<close>

definition try_block :: "world \<Rightarrow> pystr \<Rightarrow> pystr \<Rightarrow> (exn + pyval) \<times> world" where
  "try_block w token sql =
     (case httpx_post w (berdl_request token sql) of (r, w') \<Rightarrow>
        (bind r (\<lambda>response. bind (response_json response) check_api_errors), w'))"

text \<open>The two \<open>except\<close> clauses, in the order of the source.\<close>

definition except_clauses :: "exn \<Rightarrow> exn + pyval" where
  "except_clauses e =
     (if is_timeout e then Inr (error_envelope (PStr (lit ''Query timed out after 30 seconds'')))
      else Inr (error_envelope (PStr (str_of_exn e))))"

definition query_berdl :: "runtime \<Rightarrow> world \<Rightarrow> pystr \<Rightarrow> (exn + pyval) \<times> world" where
  "query_berdl rt w sql =
     (let missing = (Inr (error_envelope (PStr (lit ''KB_AUTH_TOKEN not set in .env''))), w) in
      case os_getenv w (lit ''KB_AUTH_TOKEN'') of
        None \<Rightarrow> missing
      | Some token \<Rightarrow>
          if token = [] then missing
          else if denied rt sql
          then (Inr (error_envelope (PStr (lit ''Only SELECT queries are allowed''))), w)
          else (case try_block w token sql of
                  (Inr v, w') \<Rightarrow> (Inr v, w')
                | (Inl e, w') \<Rightarrow> (except_clauses e, w')))"

section \<open>The language-model calls\<close>

text \<open>A block of text as the lines of a triple-quoted literal, each ended by a newline.\<close>

definition text_lines :: "string list \<Rightarrow> pystr" where
  "text_lines ls = concat (map (\<lambda>l. lit l @ [10]) ls)"

definition SCHEMA_CONTEXT :: pystr where
  \<open>SCHEMA_CONTEXT = text_lines
    [''You are a SQL assistant for the BERDL Data Lakehouse (NMDC microbiome data).'',
     '''',
     ''Available database: nmdc_core'',
     '''',
     ''Key tables and their columns:'',
     '''',
     ''1. trait_features - Predicted microbial traits per sample'',
     ''   - sample_id (string)'',
     ''   - 90+ columns like: "functional_group:plastic_degradation", "functional_group:methanogenesis",'',
     ''     "functional_group:nitrogen_fixation", "functional_group:oil_bioremediation",'',
     ''     "functional_group:human_pathogens_all", "functional_group:cellulolysis", etc.'',
     ''   - Values are numeric (0 = absent, >0 = present/abundance)'',
     '''',
     ''2. abiotic_features - Environmental measurements per sample'',
     ''   - sample_id, annotations_ph, annotations_temp_has_numeric_value,'',
     ''     annotations_depth_has_numeric_value, annotations_tot_org_carb_has_numeric_value, etc.'',
     '''',
     ''3. taxonomy_dim - Taxonomy hierarchy (2.6M records)'',
     ''   - taxid, kingdom, phylum, class, order, family, genus, species'',
     '''',
     ''4. study_table - Study metadata (48 studies)'',
     ''   - study_id, name, ecosystem, ecosystem_type, ecosystem_subtype'',
     '''',
     ''5. cog_categories - COG functional categories'',
     ''   - cog_id, category_code, category_name, description'',
     '''',
     ''Rules:'',
     ''- Always use fully qualified table names: nmdc_core.table_name'',
     ''- Columns with special characters need quotes: "functional_group:plastic_degradation"'',
     ''- Keep queries simple and limit results (LIMIT 20 unless user asks for more)'',
     ''- Return ONLY the SQL query, no explanation, no markdown code blocks'']\<close>

definition MODEL :: pystr where
  "MODEL = lit ''claude-sonnet-4-20250514''"

text \<open>\<open>message.content[0].text.strip()\<close>.\<close>

fun first_text :: "block list \<Rightarrow> exn + pystr" where
  "first_text [] = Inl (Exn IndexError (lit ''list index out of range''))"
| "first_text (TextBlock t # bs) = Inr (str_strip t)"
| "first_text (OtherBlock cls # bs) = Inl (Exn AttributeError (no_attribute cls (lit ''text'')))"

definition generate_request :: "pystr \<Rightarrow> pystr \<Rightarrow> llm_request" where
  "generate_request key user_question =
     \<lparr>api_key = key, model = MODEL, max_tokens = 500, system_prompt = Some SCHEMA_CONTEXT,
      messages = [(lit ''user'', lit ''Write a SQL query to answer: '' @ user_question)]\<rparr>"

definition generate_sql :: "world \<Rightarrow> pystr \<Rightarrow> (exn + pystr) \<times> world" where
  "generate_sql w user_question =
     (let missing = (Inr (lit ''-- Error: ANTHROPIC_API_KEY not set''), w) in
      case os_getenv w (lit ''ANTHROPIC_API_KEY'') of
        None \<Rightarrow> missing
      | Some key \<Rightarrow>
          if key = [] then missing
          else (case messages_create w (generate_request key user_question) of
                  (r, w') \<Rightarrow> (bind r first_text, w')))"

text \<open>
  The three assignments before the request of the explainer: the rows, the sample of
  them that is shown, and the total count.  The result is the sample and the count.
\<close>

definition extract_rows :: "runtime \<Rightarrow> pydict \<Rightarrow> exn + pyval \<times> pyval" where
  "extract_rows rt results =
     (let result_data = dict_get results (lit ''result'') (PList []) in
      bind (py_slice10 (dict_slice_error rt) result_data) (\<lambda>sample.
      bind (attr_get (dict_get results (lit ''pagination'') (PDict []))) (\<lambda>pagination.
      bind (py_len result_data) (\<lambda>n.
        Inr (sample, dict_get pagination (lit ''total_count'') (PInt n))))))"

definition explain_prompt :: "pystr \<Rightarrow> pystr \<Rightarrow> pystr \<Rightarrow> pystr \<Rightarrow> pystr" where
  \<open>explain_prompt question sql total_rows result_summary =
     lit ''The user asked: "'' @ question @ lit ''"'' @ [10, 10] @
     lit ''I ran this SQL: '' @ sql @ [10, 10] @
     lit ''Results ('' @ total_rows @ lit '' rows total, showing first 10):'' @ [10] @
     result_summary @ [10, 10] @
     lit ''Explain what we found in 2-3 sentences. Be specific about numbers and findings.''\<close>

definition explain_request :: "pystr \<Rightarrow> pystr \<Rightarrow> llm_request" where
  "explain_request key content =
     \<lparr>api_key = key, model = MODEL, max_tokens = 300, system_prompt = None,
      messages = [(lit ''user'', content)]\<rparr>"

definition explain_results ::
  "runtime \<Rightarrow> world \<Rightarrow> pystr \<Rightarrow> pystr \<Rightarrow> pydict \<Rightarrow> (exn + pystr) \<times> world" where
  "explain_results rt w question sql results =
     (let missing = (Inr (lit ''Error: ANTHROPIC_API_KEY not set''), w) in
      case os_getenv w (lit ''ANTHROPIC_API_KEY'') of
        None \<Rightarrow> missing
      | Some key \<Rightarrow>
          if key = [] then missing
          else (case map_of results (lit ''error'') of
                  Some err \<Rightarrow> (Inr (lit ''**Query failed:** '' @ py_str rt err), w)
                | None \<Rightarrow>
                    (case extract_rows rt results of
                       Inl e \<Rightarrow> (Inl e, w)
                     | Inr (sample, total_rows) \<Rightarrow>
                         (case messages_create w
                                 (explain_request key
                                    (explain_prompt question sql (py_str rt total_rows)
                                       (py_str rt sample))) of
                            (r, w') \<Rightarrow> (bind r first_text, w')))))"

section \<open>The response handling as the specification words it\<close>

text \<open>
  The specification's own reading of the response handling, written from its words and
  kept apart from the code above, for comparison with it: a decoded response that
  contains a truthy \<open>error\<close> or \<open>error_type\<close> field gives an error envelope with the
  response's \<open>message\<close> field or a generic fallback; any other response is returned
  verbatim.
\<close>

fun field :: "pyval \<Rightarrow> pystr \<Rightarrow> pyval option" where
  "field (PDict d) k = map_of d k"
| "field v k = None"

definition has_truthy_field :: "pyval \<Rightarrow> pystr \<Rightarrow> bool" where
  "has_truthy_field data k = (case field data k of None \<Rightarrow> False | Some v \<Rightarrow> truthy v)"

definition reports_error :: "pyval \<Rightarrow> bool" where
  "reports_error data \<longleftrightarrow>
     has_truthy_field data (lit ''error'') \<or> has_truthy_field data (lit ''error_type'')"

definition message_or_fallback :: "pyval \<Rightarrow> pyval" where
  "message_or_fallback data =
     (case field data (lit ''message'') of
        None \<Rightarrow> PStr (lit ''Unknown API error'')
      | Some m \<Rightarrow> m)"

definition response_handling_spec :: "pyval \<Rightarrow> pyval" where
  "response_handling_spec data =
     (if reports_error data then error_envelope (message_or_fallback data) else data)"

section \<open>Concrete runtimes and worlds\<close>

text \<open>
  Stand-ins on which the theorems below are instantiated.  The runtime leaves code
  points above ASCII unchanged and prints the two values the examples show (\<open>[]\<close> and
  \<open>0\<close>) as Python does.  The world has both credentials set, a data service that
  answers every call with the given outcome, and a language model that answers every
  call with one text block.
\<close>

definition demo_repr :: "pyval \<Rightarrow> pystr" where
  "demo_repr v =
     (case v of
        PList xs \<Rightarrow> (if xs = [] then lit ''[]'' else lit ''[...]'')
      | PInt i \<Rightarrow> (if i = 0 then lit ''0'' else lit ''<int>'')
      | _ \<Rightarrow> lit ''<value>'')"

definition demo_runtime :: runtime where
  "demo_runtime =
     \<lparr>to_upper_full = (\<lambda>c. [c]), repr = demo_repr,
      dict_slice_error = Exn TypeError (lit ''unhashable type: '' @ quoted (lit ''slice''))\<rparr>"

definition demo_world :: "(exn + response) \<Rightarrow> world" where
  "demo_world r =
     \<lparr>environ = [lit ''KB_AUTH_TOKEN'' \<mapsto> lit ''secret'', lit ''ANTHROPIC_API_KEY'' \<mapsto> lit ''sk-key''],
      http = (\<lambda>n req. r),
      http_calls = [],
      llm = (\<lambda>n req. Inr [TextBlock (lit '' Nothing was found. '')]),
      llm_calls = []\<rparr>"

text \<open>The same world with no credential at all in the environment.\<close>

definition bare_world :: "(exn + response) \<Rightarrow> world" where
  "bare_world r = (demo_world r)\<lparr>environ := Map.empty\<rparr>"

section \<open>Facts about the string operations and the concrete worlds\<close>

lemma lit_eq_iff [simp]: "lit a = lit b \<longleftrightarrow> a = b"
  by (simp add: lit_def inj_map_eq_map[OF inj_of_char])

lemma lit_append: "lit a @ lit b = lit (a @ b)"
  by (simp add: lit_def)

lemma lit_Nil_iff [simp]: "lit a = [] \<longleftrightarrow> a = []"
  by (simp add: lit_def)

lemma starts_with_iff: "starts_with s k \<longleftrightarrow> (\<exists>q. s = k @ q)"
  by (induction s k rule: starts_with.induct) auto

lemma str_contains_iff: "str_contains k s \<longleftrightarrow> (\<exists>p q. s = p @ k @ q)"
proof (induction s)
  case Nil
  then show ?case by simp
next
  case (Cons c cs)
  show ?case
  proof
    assume "str_contains k (c # cs)"
    then consider "starts_with (c # cs) k" | "str_contains k cs" by auto
    then show "\<exists>p q. c # cs = p @ k @ q"
    proof cases
      case 1
      then obtain q where "c # cs = k @ q" by (auto simp: starts_with_iff)
      then have "c # cs = [] @ k @ q" by simp
      then show ?thesis by blast
    next
      case 2
      then obtain p q where "cs = p @ k @ q" using Cons.IH by auto
      then have "c # cs = (c # p) @ k @ q" by simp
      then show ?thesis by blast
    qed
  next
    assume "\<exists>p q. c # cs = p @ k @ q"
    then obtain p q where pq: "c # cs = p @ k @ q" by auto
    show "str_contains k (c # cs)"
    proof (cases p)
      case Nil
      then have "starts_with (c # cs) k" using pq by (simp add: starts_with_iff)
      then show ?thesis by simp
    next
      case (Cons a p')
      then have "cs = p' @ k @ q" using pq by simp
      then show ?thesis using Cons.IH by auto
    qed
  qed
qed

lemma denied_iff:
  "denied rt sql \<longleftrightarrow>
     (\<exists>keyword \<in> set denylist. \<exists>p q. str_upper (to_upper_full rt) sql = p @ keyword @ q)"
  by (simp add: denied_def list_ex_iff str_contains_iff)

lemma demo_environ_token [simp]:
  "os_getenv (demo_world r) (lit ''KB_AUTH_TOKEN'') = Some (lit ''secret'')"
  by (simp add: os_getenv_def demo_world_def)

lemma demo_environ_key [simp]:
  "os_getenv (demo_world r) (lit ''ANTHROPIC_API_KEY'') = Some (lit ''sk-key'')"
  by (simp add: os_getenv_def demo_world_def)

lemma bare_environ [simp]: "os_getenv (bare_world r) k = None"
  by (simp add: os_getenv_def bare_world_def)

lemma demo_upper [simp]: "to_upper_full demo_runtime = (\<lambda>c. [c])"
  by (simp add: demo_runtime_def)

lemma denied_select_1: "\<not> denied demo_runtime (lit ''SELECT 1 as test'')"
  by (simp add: denied_def denylist_def str_upper_def lit_def ascii_upper_def)

section \<open>The safety filter and the credential check of the query executor\<close>

text \<open>
  Claim C1.  Whenever the upper-cased SQL contains one of the five keywords \<open>DROP\<close>,
  \<open>DELETE\<close>, \<open>UPDATE\<close>, \<open>INSERT\<close>, \<open>ALTER\<close> as a contiguous substring,
  \<open>query_berdl\<close> returns an error envelope and leaves the world as it was, so that no
  request has been sent.  The envelope carries the missing-credential message when
  the token is not set and the message of the filter otherwise.  The scan is textual:
  the instance below is a plain \<open>SELECT\<close> whose column name \<open>last_updated\<close> contains
  \<open>UPDATE\<close>.
\<close>

theorem query_berdl_denylist:
  assumes "keyword \<in> {lit ''DROP'', lit ''DELETE'', lit ''UPDATE'', lit ''INSERT'', lit ''ALTER''}"
    and "str_upper (to_upper_full rt) sql = p @ keyword @ q"
  shows "query_berdl rt w sql =
           (Inr (error_envelope (PStr
              (if not_set (os_getenv w (lit ''KB_AUTH_TOKEN''))
               then lit ''KB_AUTH_TOKEN not set in .env''
               else lit ''Only SELECT queries are allowed''))), w)
         \<and> http_calls (snd (query_berdl rt w sql)) = http_calls w"
proof -
  have "keyword \<in> set denylist" using assms(1) by (simp add: denylist_def)
  then have "denied rt sql" using assms(2) unfolding denied_iff by blast
  then show ?thesis
    by (simp add: query_berdl_def Let_def split: option.splits)
qed

theorem query_berdl_denylist_witness:
  "lit ''UPDATE'' \<in> {lit ''DROP'', lit ''DELETE'', lit ''UPDATE'', lit ''INSERT'', lit ''ALTER''}
   \<and> str_upper (to_upper_full demo_runtime) (lit ''SELECT last_updated FROM nmdc_core.study_table'')
       = lit ''SELECT LAST_'' @ lit ''UPDATE'' @ lit ''D FROM NMDC_CORE.STUDY_TABLE''
   \<and> query_berdl demo_runtime (demo_world (Inr (Response (Inr (PDict [])))))
         (lit ''SELECT last_updated FROM nmdc_core.study_table'')
       = (Inr (error_envelope (PStr (lit ''Only SELECT queries are allowed''))),
          demo_world (Inr (Response (Inr (PDict [])))))"
proof -
  have k: "lit ''UPDATE'' \<in> {lit ''DROP'', lit ''DELETE'', lit ''UPDATE'', lit ''INSERT'', lit ''ALTER''}"
    by simp
  have u: "str_upper (to_upper_full demo_runtime) (lit ''SELECT last_updated FROM nmdc_core.study_table'')
       = lit ''SELECT LAST_'' @ lit ''UPDATE'' @ lit ''D FROM NMDC_CORE.STUDY_TABLE''"
    by (simp add: str_upper_def lit_def ascii_upper_def)
  show ?thesis
    using k u query_berdl_denylist [OF k u, of "demo_world (Inr (Response (Inr (PDict []))))"]
    by simp
qed

text \<open>
  Claim C3.  If \<open>KB_AUTH_TOKEN\<close> is unset, \<open>query_berdl\<close> returns, for every SQL
  string, the envelope \<open>{"error": "KB_AUTH_TOKEN not set in .env"}\<close> and sends no
  request.
\<close>

theorem query_berdl_missing_token:
  assumes "os_getenv w (lit ''KB_AUTH_TOKEN'') = None"
  shows "query_berdl rt w sql =
           (Inr (PDict [(lit ''error'', PStr (lit ''KB_AUTH_TOKEN not set in .env''))]), w)
         \<and> http_calls (snd (query_berdl rt w sql)) = http_calls w"
  using assms by (simp add: query_berdl_def Let_def error_envelope_def)

theorem query_berdl_missing_token_witness:
  "os_getenv (bare_world (Inr (Response (Inr (PDict []))))) (lit ''KB_AUTH_TOKEN'') = None
   \<and> query_berdl demo_runtime (bare_world (Inr (Response (Inr (PDict []))))) (lit ''SELECT 1 as test'')
       = (Inr (PDict [(lit ''error'', PStr (lit ''KB_AUTH_TOKEN not set in .env''))]),
          bare_world (Inr (Response (Inr (PDict [])))))"
proof -
  have h: "os_getenv (bare_world (Inr (Response (Inr (PDict []))))) (lit ''KB_AUTH_TOKEN'') = None"
    by simp
  show ?thesis
    using h query_berdl_missing_token [OF h, of demo_runtime "lit ''SELECT 1 as test''"]
    by simp
qed

section \<open>The request and the handling of its outcome\<close>

lemma try_block_eq:
  "try_block w token sql =
     (bind (http w (length (http_calls w)) (berdl_request token sql))
        (\<lambda>response. bind (response_json response) check_api_errors),
      w\<lparr>http_calls := http_calls w @ [berdl_request token sql]\<rparr>)"
  by (simp add: try_block_def httpx_post_def)

lemma query_berdl_sends:
  assumes "os_getenv w (lit ''KB_AUTH_TOKEN'') = Some token" and "token \<noteq> []"
    and "\<not> denied rt sql"
  shows "query_berdl rt w sql =
           (case bind (http w (length (http_calls w)) (berdl_request token sql))
                   (\<lambda>response. bind (response_json response) check_api_errors) of
              Inl e \<Rightarrow> except_clauses e
            | Inr v \<Rightarrow> Inr v,
            w\<lparr>http_calls := http_calls w @ [berdl_request token sql]\<rparr>)"
  using assms by (simp add: query_berdl_def Let_def try_block_eq split: sum.splits)

lemma check_api_errors_dict:
  "check_api_errors (PDict d) = Inr (response_handling_spec (PDict d))"
  by (simp add: check_api_errors_def py_get_def dict_get_def response_handling_spec_def
      reports_error_def has_truthy_field_def message_or_fallback_def split: option.splits)

lemma check_api_errors_other:
  assumes "\<forall>d. data \<noteq> PDict d"
  shows "check_api_errors data =
           Inl (Exn AttributeError (no_attribute (type_name data) (lit ''get'')))"
  using assms by (cases data) (simp_all add: check_api_errors_def py_get_def)

lemma check_api_errors_is_dict:
  "check_api_errors data = Inr v \<Longrightarrow> \<exists>d. v = PDict d"
  by (cases data)
     (auto simp: check_api_errors_def py_get_def error_envelope_def split: if_splits)

lemma spec_error_iff:
  "response_handling_spec (PDict d) = error_envelope (message_or_fallback (PDict d))
     \<longleftrightarrow> reports_error (PDict d)"
proof
  assume eq: "response_handling_spec (PDict d) = error_envelope (message_or_fallback (PDict d))"
  show "reports_error (PDict d)"
  proof (rule ccontr)
    assume no: "\<not> reports_error (PDict d)"
    have env: "PDict d = error_envelope (message_or_fallback (PDict d))"
      using eq no unfolding response_handling_spec_def by (simp only: if_False)
    have shape: "\<And>x. PDict d = error_envelope x \<Longrightarrow> d = [(lit ''error'', x)]"
      by (simp add: error_envelope_def)
    obtain m where d: "d = [(lit ''error'', m)]"
      using shape [OF env] by blast
    have "message_or_fallback (PDict [(lit ''error'', m)]) = PStr (lit ''Unknown API error'')"
      by (simp add: message_or_fallback_def)
    then have "PDict [(lit ''error'', m)] = error_envelope (PStr (lit ''Unknown API error''))"
      using env unfolding d by (simp only:)
    then have "m = PStr (lit ''Unknown API error'')"
      by (simp add: error_envelope_def)
    then have "reports_error (PDict d)"
      unfolding d by (simp add: reports_error_def has_truthy_field_def)
    with no show False by simp
  qed
next
  assume "reports_error (PDict d)"
  then show "response_handling_spec (PDict d) = error_envelope (message_or_fallback (PDict d))"
    by (simp add: response_handling_spec_def)
qed

lemma demo_http [simp]: "http (demo_world r) n req = r"
  by (simp add: demo_world_def)

lemma demo_http_calls [simp]: "http_calls (demo_world r) = []"
  by (simp add: demo_world_def)

text \<open>
  Claim C4, as amended.  Let the request be sent and the response decode to \<open>data\<close>.
  If \<open>data\<close> is a JSON object, \<open>query_berdl\<close> returns what the specification words:
  the envelope \<open>{"error": m}\<close>, with \<open>m\<close> the \<open>message\<close> field or
  \<open>"Unknown API error"\<close>, exactly when \<open>data\<close> has a truthy \<open>error\<close> or \<open>error_type\<close>
  field, and \<open>data\<close> itself otherwise.  If \<open>data\<close> is any other decoded value (a list, a
  string, a number, a boolean, \<open>null\<close>), the lookup \<open>data.get\<close> raises inside the
  \<open>try\<close> block and the result is the envelope with the text of that
  \<open>AttributeError\<close>, not the body.
\<close>

theorem query_berdl_response_handling:
  assumes "os_getenv w (lit ''KB_AUTH_TOKEN'') = Some token" and "token \<noteq> []"
    and "\<not> denied rt sql"
    and "http w (length (http_calls w)) (berdl_request token sql) = Inr (Response (Inr data))"
  shows "(\<forall>d. data = PDict d \<longrightarrow>
            fst (query_berdl rt w sql) = Inr (response_handling_spec data)
            \<and> (fst (query_berdl rt w sql) = Inr (error_envelope (message_or_fallback data))
                 \<longleftrightarrow> reports_error data))
         \<and> ((\<forall>d. data \<noteq> PDict d) \<longrightarrow>
            fst (query_berdl rt w sql) =
              Inr (error_envelope (PStr (no_attribute (type_name data) (lit ''get'')))))"
proof (intro conjI allI impI)
  fix d assume "data = PDict d"
  then show "fst (query_berdl rt w sql) = Inr (response_handling_spec data)"
    using assms by (simp add: query_berdl_sends check_api_errors_dict)
  then show "fst (query_berdl rt w sql) = Inr (error_envelope (message_or_fallback data))
               \<longleftrightarrow> reports_error data"
    using \<open>data = PDict d\<close> by (simp add: spec_error_iff)
next
  assume "\<forall>d. data \<noteq> PDict d"
  then show "fst (query_berdl rt w sql) =
               Inr (error_envelope (PStr (no_attribute (type_name data) (lit ''get''))))"
    using assms by (simp add: query_berdl_sends check_api_errors_other except_clauses_def)
qed

theorem query_berdl_response_handling_witness:
  "os_getenv (demo_world (Inr (Response (Inr (PDict
        [(lit ''error_type'', PStr (lit ''ValueError'')), (lit ''message'', PStr (lit ''bad table''))])))))
      (lit ''KB_AUTH_TOKEN'') = Some (lit ''secret'')
   \<and> lit ''secret'' \<noteq> []
   \<and> \<not> denied demo_runtime (lit ''SELECT 1 as test'')
   \<and> reports_error (PDict
        [(lit ''error_type'', PStr (lit ''ValueError'')), (lit ''message'', PStr (lit ''bad table''))])
   \<and> fst (query_berdl demo_runtime
          (demo_world (Inr (Response (Inr (PDict
            [(lit ''error_type'', PStr (lit ''ValueError'')), (lit ''message'', PStr (lit ''bad table''))])))))
          (lit ''SELECT 1 as test''))
       = Inr (PDict [(lit ''error'', PStr (lit ''bad table''))])
   \<and> fst (query_berdl demo_runtime
          (demo_world (Inr (Response (Inr (PStr (lit ''Service unavailable''))))))
          (lit ''SELECT 1 as test''))
       = Inr (PDict [(lit ''error'',
                PStr (quoted (lit ''str'') @ lit '' object has no attribute '' @ quoted (lit ''get'')))])"
proof -
  let ?data = "PDict [(lit ''error_type'', PStr (lit ''ValueError'')),
                      (lit ''message'', PStr (lit ''bad table''))]"
  let ?w = "demo_world (Inr (Response (Inr ?data)))"
  have t: "os_getenv ?w (lit ''KB_AUTH_TOKEN'') = Some (lit ''secret'')" by simp
  have n: "lit ''secret'' \<noteq> []" by simp
  have h: "http ?w (length (http_calls ?w)) (berdl_request (lit ''secret'') (lit ''SELECT 1 as test''))
             = Inr (Response (Inr ?data))" by simp
  have r: "reports_error ?data"
    by (simp add: reports_error_def has_truthy_field_def)
  let ?text = "PStr (lit ''Service unavailable'')"
  let ?w' = "demo_world (Inr (Response (Inr ?text)))"
  have t': "os_getenv ?w' (lit ''KB_AUTH_TOKEN'') = Some (lit ''secret'')" by simp
  have h': "http ?w' (length (http_calls ?w')) (berdl_request (lit ''secret'') (lit ''SELECT 1 as test''))
             = Inr (Response (Inr ?text))" by simp
  show ?thesis
    using t n r query_berdl_response_handling [OF t n denied_select_1 h]
      query_berdl_response_handling [OF t' n denied_select_1 h']
    by (simp add: denied_select_1 response_handling_spec_def message_or_fallback_def
        error_envelope_def no_attribute_def)
qed

text \<open>
  Claim C4 as stated, for every decoded response, fails on a body that is the empty
  JSON array: it has no \<open>error\<close> field, so the specification's wording returns it
  verbatim, while the code returns an error envelope.
\<close>

theorem query_berdl_list_body_counterexample:
  "fst (query_berdl demo_runtime (demo_world (Inr (Response (Inr (PList []))))) (lit ''SELECT 1 as test''))
     = Inr (PDict [(lit ''error'',
              PStr (quoted (lit ''list'') @ lit '' object has no attribute '' @ quoted (lit ''get'')))])
   \<and> response_handling_spec (PList []) = PList []
   \<and> fst (query_berdl demo_runtime (demo_world (Inr (Response (Inr (PList []))))) (lit ''SELECT 1 as test''))
     \<noteq> Inr (response_handling_spec (PList []))"
  by (simp add: query_berdl_sends [OF demo_environ_token _ denied_select_1]
      check_api_errors_other except_clauses_def error_envelope_def no_attribute_def
      response_handling_spec_def reports_error_def has_truthy_field_def)

text \<open>
  Claim C5.  When the request raises, the result is an error envelope: with the text
  \<open>Query timed out after 30 seconds\<close> for a time-out, whatever the exception's own
  message, and with \<open>str(e)\<close> for any other exception.
\<close>

theorem query_berdl_transport_failure:
  assumes "os_getenv w (lit ''KB_AUTH_TOKEN'') = Some token" and "token \<noteq> []"
    and "\<not> denied rt sql"
    and "http w (length (http_calls w)) (berdl_request token sql) = Inl e"
  shows "fst (query_berdl rt w sql) =
           Inr (PDict [(lit ''error'',
                  PStr (if is_timeout e then lit ''Query timed out after 30 seconds''
                        else str_of_exn e))])"
  using assms by (simp add: query_berdl_sends except_clauses_def error_envelope_def)

theorem query_berdl_transport_failure_witness:
  "os_getenv (demo_world (Inl (Exn TimeoutException (lit ''The read operation timed out''))))
      (lit ''KB_AUTH_TOKEN'') = Some (lit ''secret'')
   \<and> lit ''secret'' \<noteq> []
   \<and> \<not> denied demo_runtime (lit ''SELECT 1 as test'')
   \<and> fst (query_berdl demo_runtime
          (demo_world (Inl (Exn TimeoutException (lit ''The read operation timed out''))))
          (lit ''SELECT 1 as test''))
       = Inr (PDict [(lit ''error'', PStr (lit ''Query timed out after 30 seconds''))])
   \<and> fst (query_berdl demo_runtime
          (demo_world (Inl (Exn TransportError (lit ''[Errno 111] Connection refused''))))
          (lit ''SELECT 1 as test''))
       = Inr (PDict [(lit ''error'', PStr (lit ''[Errno 111] Connection refused''))])"
proof -
  let ?w = "demo_world (Inl (Exn TimeoutException (lit ''The read operation timed out'')))"
  have t: "os_getenv ?w (lit ''KB_AUTH_TOKEN'') = Some (lit ''secret'')" by simp
  have n: "lit ''secret'' \<noteq> []" by simp
  have h: "http ?w (length (http_calls ?w)) (berdl_request (lit ''secret'') (lit ''SELECT 1 as test''))
             = Inl (Exn TimeoutException (lit ''The read operation timed out''))" by simp
  let ?w' = "demo_world (Inl (Exn TransportError (lit ''[Errno 111] Connection refused'')))"
  have t': "os_getenv ?w' (lit ''KB_AUTH_TOKEN'') = Some (lit ''secret'')" by simp
  have h': "http ?w' (length (http_calls ?w')) (berdl_request (lit ''secret'') (lit ''SELECT 1 as test''))
             = Inl (Exn TransportError (lit ''[Errno 111] Connection refused''))" by simp
  show ?thesis
    using t n query_berdl_transport_failure [OF t n denied_select_1 h]
      query_berdl_transport_failure [OF t' n denied_select_1 h']
    by (simp add: denied_select_1)
qed

section \<open>Repeated calls\<close>

lemma query_berdl_world:
  "snd (query_berdl rt w sql) = w \<or>
   (\<exists>token. os_getenv w (lit ''KB_AUTH_TOKEN'') = Some token \<and> token \<noteq> [] \<and> \<not> denied rt sql \<and>
      snd (query_berdl rt w sql) = w\<lparr>http_calls := http_calls w @ [berdl_request token sql]\<rparr>)"
proof (cases "os_getenv w (lit ''KB_AUTH_TOKEN'')")
  case None
  then show ?thesis by (simp add: query_berdl_def Let_def)
next
  case (Some token)
  show ?thesis
  proof (cases "token = [] \<or> denied rt sql")
    case True
    then show ?thesis using Some by (auto simp: query_berdl_def Let_def)
  next
    case False
    then show ?thesis using Some by (simp add: query_berdl_sends)
  qed
qed

text \<open>
  Claim C6.  Call \<open>query_berdl\<close> with some SQL, and call it again with the same SQL in
  the world the first call left.  If the remote service answers the second call as it
  answered the first, the two envelopes are equal; the first call changes neither the
  environment nor the behaviour of the services, only the log of requests.
\<close>

theorem query_berdl_idempotent:
  assumes "query_berdl rt w sql = (r1, w1)" and "query_berdl rt w1 sql = (r2, w2)"
    and "http w (Suc (length (http_calls w))) = http w (length (http_calls w))"
  shows "r2 = r1 \<and> environ w1 = environ w \<and> http w1 = http w \<and> llm w1 = llm w"
proof -
  from query_berdl_world [of rt w sql]
  consider (same) "w1 = w"
    | (sent) token where "os_getenv w (lit ''KB_AUTH_TOKEN'') = Some token" "token \<noteq> []"
        "\<not> denied rt sql" "w1 = w\<lparr>http_calls := http_calls w @ [berdl_request token sql]\<rparr>"
    using assms(1) by auto
  then show ?thesis
  proof cases
    case same
    then show ?thesis using assms(1,2) by simp
  next
    case sent
    let ?req = "berdl_request token sql"
    let ?decode = "\<lambda>response. bind (response_json response) check_api_errors"
    have env: "os_getenv w1 (lit ''KB_AUTH_TOKEN'') = Some token"
      using sent(1,4) by (simp add: os_getenv_def)
    have r1: "r1 = (case bind (http w (length (http_calls w)) ?req) ?decode of
                      Inl e \<Rightarrow> except_clauses e | Inr v \<Rightarrow> Inr v)"
      using assms(1) query_berdl_sends [OF sent(1,2,3)] by simp
    have r2: "r2 = (case bind (http w1 (length (http_calls w1)) ?req) ?decode of
                      Inl e \<Rightarrow> except_clauses e | Inr v \<Rightarrow> Inr v)"
      using assms(2) query_berdl_sends [OF env sent(2,3)] by simp
    have again: "http w1 (length (http_calls w1)) = http w (length (http_calls w))"
      using assms(3) sent(4) by simp
    have "r2 = r1"
      unfolding r1 r2 again by (rule refl)
    then show ?thesis
      using sent(4) by simp
  qed
qed

theorem query_berdl_idempotent_witness:
  "query_berdl demo_runtime
      (demo_world (Inr (Response (Inr (PDict [(lit ''result'', PList [])])))))
      (lit ''SELECT 1 as test'')
     = (Inr (PDict [(lit ''result'', PList [])]),
        (demo_world (Inr (Response (Inr (PDict [(lit ''result'', PList [])])))))
          \<lparr>http_calls := [berdl_request (lit ''secret'') (lit ''SELECT 1 as test'')]\<rparr>)
   \<and> fst (query_berdl demo_runtime
        ((demo_world (Inr (Response (Inr (PDict [(lit ''result'', PList [])])))))
          \<lparr>http_calls := [berdl_request (lit ''secret'') (lit ''SELECT 1 as test'')]\<rparr>)
        (lit ''SELECT 1 as test''))
     = Inr (PDict [(lit ''result'', PList [])])"
proof -
  let ?w = "demo_world (Inr (Response (Inr (PDict [(lit ''result'', PList [])]))))"
  let ?sql = "lit ''SELECT 1 as test''"
  let ?w1 = "?w\<lparr>http_calls := [berdl_request (lit ''secret'') ?sql]\<rparr>"
  have first: "query_berdl demo_runtime ?w ?sql = (Inr (PDict [(lit ''result'', PList [])]), ?w1)"
    by (simp add: query_berdl_sends [OF demo_environ_token _ denied_select_1]
        check_api_errors_dict response_handling_spec_def reports_error_def has_truthy_field_def)
  have second: "query_berdl demo_runtime ?w1 ?sql
                  = (fst (query_berdl demo_runtime ?w1 ?sql), snd (query_berdl demo_runtime ?w1 ?sql))"
    by simp
  have mock: "http ?w (Suc (length (http_calls ?w))) = http ?w (length (http_calls ?w))"
    by (simp add: demo_world_def)
  show ?thesis
    using first query_berdl_idempotent [OF first second mock] by simp
qed

section \<open>Totality of the query executor\<close>

lemma except_clauses_dict: "\<exists>d. except_clauses e = Inr (PDict d)"
  by (simp add: except_clauses_def error_envelope_def)

lemma query_berdl_try:
  assumes "os_getenv w (lit ''KB_AUTH_TOKEN'') = Some token" and "token \<noteq> []"
    and "\<not> denied rt sql"
  shows "fst (query_berdl rt w sql) =
           (case fst (try_block w token sql) of Inl e \<Rightarrow> except_clauses e | Inr v \<Rightarrow> Inr v)"
  using assms by (simp add: query_berdl_sends try_block_eq)

lemma try_block_dict:
  assumes "fst (try_block w token sql) = Inr v"
  shows "\<exists>d. v = PDict d"
proof (cases "http w (length (http_calls w)) (berdl_request token sql)")
  case (Inl e)
  then show ?thesis using assms by (simp add: try_block_eq)
next
  case (Inr response)
  then have "bind (response_json response) check_api_errors = Inr v"
    using assms by (simp add: try_block_eq)
  then show ?thesis
    by (cases "response_json response") (auto dest: check_api_errors_is_dict)
qed

text \<open>
  Claim C10.  For every runtime, world and SQL string \<open>query_berdl\<close> returns normally,
  and what it returns is a \<open>dict\<close>.  Any exception \<open>e\<close> that the \<open>try\<close> block raises
  (from the request, from decoding the body, or from the lookups on the decoded value)
  and that is not a time-out becomes \<open>{"error": str(e)}\<close>.  The instance is a body
  that is not valid JSON.
\<close>

theorem query_berdl_total:
  "(\<exists>d. fst (query_berdl rt w sql) = Inr (PDict d))
   \<and> (os_getenv w (lit ''KB_AUTH_TOKEN'') = Some token \<longrightarrow> token \<noteq> [] \<longrightarrow> \<not> denied rt sql \<longrightarrow>
        fst (try_block w token sql) = Inl e \<longrightarrow> \<not> is_timeout e \<longrightarrow>
        fst (query_berdl rt w sql) = Inr (PDict [(lit ''error'', PStr (str_of_exn e))]))"
proof
  show "\<exists>d. fst (query_berdl rt w sql) = Inr (PDict d)"
  proof (cases "os_getenv w (lit ''KB_AUTH_TOKEN'')")
    case None
    then show ?thesis by (simp add: query_berdl_def Let_def error_envelope_def)
  next
    case (Some tok)
    show ?thesis
    proof (cases "tok = [] \<or> denied rt sql")
      case True
      then show ?thesis using Some by (auto simp: query_berdl_def Let_def error_envelope_def)
    next
      case False
      then have q: "fst (query_berdl rt w sql) =
                 (case fst (try_block w tok sql) of Inl e \<Rightarrow> except_clauses e | Inr v \<Rightarrow> Inr v)"
        using Some by (simp add: query_berdl_try)
      show ?thesis
      proof (cases "fst (try_block w tok sql)")
        case (Inl x)
        then show ?thesis
          using q except_clauses_dict [of x] by simp
      next
        case (Inr v)
        then show ?thesis
          using q try_block_dict [OF Inr] by auto
      qed
    qed
  qed
next
  show "os_getenv w (lit ''KB_AUTH_TOKEN'') = Some token \<longrightarrow> token \<noteq> [] \<longrightarrow> \<not> denied rt sql \<longrightarrow>
        fst (try_block w token sql) = Inl e \<longrightarrow> \<not> is_timeout e \<longrightarrow>
        fst (query_berdl rt w sql) = Inr (PDict [(lit ''error'', PStr (str_of_exn e))])"
    by (simp add: query_berdl_try except_clauses_def error_envelope_def)
qed

theorem query_berdl_total_witness:
  "os_getenv (demo_world (Inr (Response (Inl (Exn JSONDecodeError
        (lit ''Expecting value: line 1 column 1 (char 0)''))))))
      (lit ''KB_AUTH_TOKEN'') = Some (lit ''secret'')
   \<and> lit ''secret'' \<noteq> []
   \<and> \<not> denied demo_runtime (lit ''SELECT 1 as test'')
   \<and> fst (try_block (demo_world (Inr (Response (Inl (Exn JSONDecodeError
            (lit ''Expecting value: line 1 column 1 (char 0)''))))))
          (lit ''secret'') (lit ''SELECT 1 as test''))
       = Inl (Exn JSONDecodeError (lit ''Expecting value: line 1 column 1 (char 0)''))
   \<and> \<not> is_timeout (Exn JSONDecodeError (lit ''Expecting value: line 1 column 1 (char 0)''))
   \<and> fst (query_berdl demo_runtime
          (demo_world (Inr (Response (Inl (Exn JSONDecodeError
            (lit ''Expecting value: line 1 column 1 (char 0)''))))))
          (lit ''SELECT 1 as test''))
       = Inr (PDict [(lit ''error'', PStr (lit ''Expecting value: line 1 column 1 (char 0)''))])"
proof -
  let ?e = "Exn JSONDecodeError (lit ''Expecting value: line 1 column 1 (char 0)'')"
  let ?w = "demo_world (Inr (Response (Inl ?e)))"
  have t: "os_getenv ?w (lit ''KB_AUTH_TOKEN'') = Some (lit ''secret'')" by simp
  have n: "lit ''secret'' \<noteq> []" by simp
  have b: "fst (try_block ?w (lit ''secret'') (lit ''SELECT 1 as test'')) = Inl ?e"
    by (simp add: try_block_eq)
  have nt: "\<not> is_timeout ?e" by simp
  show ?thesis
    using t n b nt denied_select_1
      query_berdl_total [of demo_runtime ?w "lit ''SELECT 1 as test''" "lit ''secret''" ?e]
    by simp
qed

section \<open>The SQL generator without a credential\<close>

lemma messages_create_eq:
  "messages_create w req =
     (llm w (length (llm_calls w)) req, w\<lparr>llm_calls := llm_calls w @ [req]\<rparr>)"
  by (simp add: messages_create_def)

lemma demo_llm_calls [simp]: "llm_calls (demo_world r) = []"
  by (simp add: demo_world_def)

lemma demo_repr_simps [simp]:
  "repr demo_runtime (PList []) = lit ''[]''"
  "repr demo_runtime (PInt 0) = lit ''0''"
  by (simp_all add: demo_runtime_def demo_repr_def)

text \<open>
  Claim C7.  If \<open>ANTHROPIC_API_KEY\<close> is absent, \<open>generate_sql\<close> returns normally, for
  every question, the string \<open>-- Error: ANTHROPIC_API_KEY not set\<close>, which is a SQL
  comment, and makes no call to the language model.
\<close>

theorem generate_sql_missing_key:
  assumes "os_getenv w (lit ''ANTHROPIC_API_KEY'') = None"
  shows "generate_sql w user_question = (Inr (lit ''-- Error: ANTHROPIC_API_KEY not set''), w)
         \<and> llm_calls (snd (generate_sql w user_question)) = llm_calls w
         \<and> (\<exists>s. fst (generate_sql w user_question) = Inr s \<and> starts_with s (lit ''--''))"
proof -
  have "starts_with (lit ''-- Error: ANTHROPIC_API_KEY not set'') (lit ''--'')"
    by (simp add: lit_def)
  then show ?thesis
    using assms by (simp add: generate_sql_def Let_def)
qed

theorem generate_sql_missing_key_witness:
  "os_getenv (bare_world (Inr (Response (Inr (PDict []))))) (lit ''ANTHROPIC_API_KEY'') = None
   \<and> generate_sql (bare_world (Inr (Response (Inr (PDict [])))))
         (lit ''How many samples have plastic degradation?'')
       = (Inr (lit ''-- Error: ANTHROPIC_API_KEY not set''),
          bare_world (Inr (Response (Inr (PDict [])))))"
proof -
  have h: "os_getenv (bare_world (Inr (Response (Inr (PDict []))))) (lit ''ANTHROPIC_API_KEY'') = None"
    by simp
  show ?thesis
    using h generate_sql_missing_key [OF h, of "lit ''How many samples have plastic degradation?''"]
    by simp
qed

section \<open>The result explainer\<close>

lemma not_query_failed:
  "lit ''Error: ANTHROPIC_API_KEY not set'' \<noteq> lit ''**Query failed:** '' @ s"
  by (simp add: lit_def)

text \<open>
  Claim C9.  The credential is checked before the envelope is looked at: if
  \<open>ANTHROPIC_API_KEY\<close> is unset, \<open>explain_results\<close> returns
  \<open>Error: ANTHROPIC_API_KEY not set\<close> for every envelope, also for one that has an
  \<open>error\<close> key, and that string is not the \<open>Query failed\<close> report of any error.
\<close>

theorem explain_results_missing_key:
  assumes "os_getenv w (lit ''ANTHROPIC_API_KEY'') = None"
  shows "explain_results rt w question sql results
           = (Inr (lit ''Error: ANTHROPIC_API_KEY not set''), w)
         \<and> (\<forall>err. fst (explain_results rt w question sql results)
                  \<noteq> Inr (lit ''**Query failed:** '' @ py_str rt err))"
  using assms by (simp add: explain_results_def Let_def not_query_failed)

theorem explain_results_missing_key_witness:
  "os_getenv (bare_world (Inr (Response (Inr (PDict []))))) (lit ''ANTHROPIC_API_KEY'') = None
   \<and> explain_results demo_runtime (bare_world (Inr (Response (Inr (PDict [])))))
         (lit ''What kingdoms are in the taxonomy?'') (lit ''SELECT 1 as test'')
         [(lit ''error'', PStr (lit ''KB_AUTH_TOKEN not set in .env''))]
       = (Inr (lit ''Error: ANTHROPIC_API_KEY not set''),
          bare_world (Inr (Response (Inr (PDict [])))))"
proof -
  have h: "os_getenv (bare_world (Inr (Response (Inr (PDict []))))) (lit ''ANTHROPIC_API_KEY'') = None"
    by simp
  show ?thesis
    using h explain_results_missing_key [OF h, of demo_runtime
        "lit ''What kingdoms are in the taxonomy?''" "lit ''SELECT 1 as test''"
        "[(lit ''error'', PStr (lit ''KB_AUTH_TOKEN not set in .env''))]"]
    by simp
qed

text \<open>
  Claim C2, as amended.  For every envelope that has an \<open>error\<close> key, \<open>explain_results\<close>
  makes no call to the language model; and if \<open>ANTHROPIC_API_KEY\<close> is set to a
  non-empty value, it returns the marker \<open>**Query failed:**\<close>, a blank, and \<open>str\<close> of
  the error, a string that begins with the marker and contains the error's message.
\<close>

theorem explain_results_error_envelope:
  assumes "map_of results (lit ''error'') = Some err"
  shows "llm_calls (snd (explain_results rt w question sql results)) = llm_calls w
         \<and> (\<forall>key. os_getenv w (lit ''ANTHROPIC_API_KEY'') = Some key \<and> key \<noteq> [] \<longrightarrow>
               fst (explain_results rt w question sql results)
                 = Inr (lit ''**Query failed:** '' @ py_str rt err)
               \<and> (\<exists>s. fst (explain_results rt w question sql results) = Inr s
                      \<and> starts_with s (lit ''**Query failed:**'')
                      \<and> str_contains (py_str rt err) s))"
proof -
  have "starts_with (lit ''**Query failed:** '' @ py_str rt err) (lit ''**Query failed:**'')"
  proof -
    have "lit ''**Query failed:** '' @ py_str rt err
            = lit ''**Query failed:**'' @ (lit '' '' @ py_str rt err)"
      by (simp add: lit_def)
    then show ?thesis unfolding starts_with_iff by blast
  qed
  moreover have "str_contains (py_str rt err) (lit ''**Query failed:** '' @ py_str rt err)"
  proof -
    have "lit ''**Query failed:** '' @ py_str rt err
            = lit ''**Query failed:** '' @ py_str rt err @ []"
      by simp
    then show ?thesis unfolding str_contains_iff by blast
  qed
  ultimately show ?thesis
    using assms by (auto simp: explain_results_def Let_def split: option.splits)
qed

theorem explain_results_error_envelope_witness:
  "map_of [(lit ''error'', PStr (lit ''Only SELECT queries are allowed''))] (lit ''error'')
     = Some (PStr (lit ''Only SELECT queries are allowed''))
   \<and> os_getenv (demo_world (Inr (Response (Inr (PDict []))))) (lit ''ANTHROPIC_API_KEY'')
       = Some (lit ''sk-key'')
   \<and> lit ''sk-key'' \<noteq> []
   \<and> explain_results demo_runtime (demo_world (Inr (Response (Inr (PDict [])))))
         (lit ''Remove all studies'') (lit ''DELETE FROM nmdc_core.study_table'')
         [(lit ''error'', PStr (lit ''Only SELECT queries are allowed''))]
       = (Inr (lit ''**Query failed:** Only SELECT queries are allowed''),
          demo_world (Inr (Response (Inr (PDict [])))))"
proof -
  let ?results = "[(lit ''error'', PStr (lit ''Only SELECT queries are allowed''))]"
  let ?w = "demo_world (Inr (Response (Inr (PDict []))))"
  have e: "map_of ?results (lit ''error'') = Some (PStr (lit ''Only SELECT queries are allowed''))"
    by simp
  have k: "os_getenv ?w (lit ''ANTHROPIC_API_KEY'') = Some (lit ''sk-key'')" by simp
  have n: "lit ''sk-key'' \<noteq> []" by simp
  have w: "snd (explain_results demo_runtime ?w (lit ''Remove all studies'')
                  (lit ''DELETE FROM nmdc_core.study_table'') ?results) = ?w"
    by (simp add: explain_results_def Let_def)
  show ?thesis
    using e k n w explain_results_error_envelope [OF e, of demo_runtime ?w
        "lit ''Remove all studies''" "lit ''DELETE FROM nmdc_core.study_table''"]
    by (simp add: py_str_def lit_append prod_eq_iff)
qed

text \<open>
  Claim C2 as stated, for every envelope with an \<open>error\<close> key, fails when the
  language-model credential is unset: the result is the missing-credential string,
  which contains neither \<open>Query failed\<close> nor the error's message.
\<close>

theorem explain_results_unset_key_counterexample:
  "map_of [(lit ''error'', PStr (lit ''Query timed out after 30 seconds''))] (lit ''error'')
     = Some (PStr (lit ''Query timed out after 30 seconds''))
   \<and> fst (explain_results demo_runtime
          ((demo_world (Inl (Exn TimeoutException [])))
             \<lparr>environ := [lit ''KB_AUTH_TOKEN'' \<mapsto> lit ''secret'']\<rparr>)
          (lit ''Count studies by ecosystem type'') (lit ''SELECT 1 as test'')
          [(lit ''error'', PStr (lit ''Query timed out after 30 seconds''))])
       = Inr (lit ''Error: ANTHROPIC_API_KEY not set'')
   \<and> \<not> str_contains (lit ''Query failed'') (lit ''Error: ANTHROPIC_API_KEY not set'')
   \<and> \<not> str_contains (lit ''Query timed out after 30 seconds'')
          (lit ''Error: ANTHROPIC_API_KEY not set'')"
  by (simp add: explain_results_def Let_def os_getenv_def demo_world_def lit_def)

lemma extract_rows_wellformed:
  assumes "dict_get results (lit ''result'') (PList []) = PList rows"
    and "dict_get results (lit ''pagination'') (PDict []) = PDict pagination"
  shows "extract_rows rt results =
           Inr (PList (take 10 rows),
                case map_of pagination (lit ''total_count'') of
                  None \<Rightarrow> PInt (int (length rows))
                | Some n \<Rightarrow> n)"
  using assms by (simp add: extract_rows_def Let_def dict_get_def [of pagination])

text \<open>
  Claim C8, as amended.  Take an envelope with no \<open>error\<close> key whose \<open>result\<close> is
  absent or a list of rows and whose \<open>pagination\<close> is absent or an object.  The
  explainer extracts, without raising, the first rows up to ten as the sample and, as
  the total, the \<open>total_count\<close> of the pagination when it has one and the number of
  rows otherwise.  When \<open>ANTHROPIC_API_KEY\<close> is set to a non-empty value it sends
  exactly one request to the language model, whose prompt shows this total and this
  sample, and what it returns is exactly the outcome of that call: the stripped text
  of the first block when the model answers with a text block, and otherwise whatever
  the call or the reading of its answer raises; the explainer raises nothing of its
  own.  When the key is unset it sends no request and returns the missing-credential
  string.  The instance is an envelope with no rows and no pagination: the sample is
  \<open>[]\<close>, the total is \<open>0\<close>, and the explainer returns the model's text.
\<close>

theorem explain_results_sample_and_total:
  assumes "map_of results (lit ''error'') = None"
    and "dict_get results (lit ''result'') (PList []) = PList rows"
    and "dict_get results (lit ''pagination'') (PDict []) = PDict pagination"
    and "total_rows = (case map_of pagination (lit ''total_count'') of
                    None \<Rightarrow> PInt (int (length rows))
                  | Some n \<Rightarrow> n)"
  shows "extract_rows rt results = Inr (PList (take 10 rows), total_rows)
         \<and> length (take 10 rows) \<le> 10
         \<and> llm_calls (snd (explain_results rt w question sql results))
             = llm_calls w @
               (case os_getenv w (lit ''ANTHROPIC_API_KEY'') of
                  None \<Rightarrow> []
                | Some key \<Rightarrow>
                    if key = [] then []
                    else [explain_request key
                            (explain_prompt question sql (py_str rt total_rows)
                               (py_str rt (PList (take 10 rows))))])
         \<and> (\<forall>key. os_getenv w (lit ''ANTHROPIC_API_KEY'') = Some key \<and> key \<noteq> [] \<longrightarrow>
               explain_results rt w question sql results
                 = (bind (llm w (length (llm_calls w))
                            (explain_request key
                               (explain_prompt question sql (py_str rt total_rows)
                                  (py_str rt (PList (take 10 rows))))))
                      first_text,
                    w\<lparr>llm_calls := llm_calls w @
                        [explain_request key
                           (explain_prompt question sql (py_str rt total_rows)
                              (py_str rt (PList (take 10 rows))))]\<rparr>))
         \<and> (\<forall>key answer blocks.
               os_getenv w (lit ''ANTHROPIC_API_KEY'') = Some key \<and> key \<noteq> [] \<and>
               llm w (length (llm_calls w))
                 (explain_request key
                    (explain_prompt question sql (py_str rt total_rows)
                       (py_str rt (PList (take 10 rows)))))
                 = Inr (TextBlock answer # blocks) \<longrightarrow>
               fst (explain_results rt w question sql results) = Inr (str_strip answer))
         \<and> (os_getenv w (lit ''ANTHROPIC_API_KEY'') = None \<longrightarrow>
               fst (explain_results rt w question sql results)
                 = Inr (lit ''Error: ANTHROPIC_API_KEY not set''))"
proof -
  let ?req = "\<lambda>key. explain_request key
                (explain_prompt question sql (py_str rt total_rows)
                   (py_str rt (PList (take 10 rows))))"
  have ex: "extract_rows rt results = Inr (PList (take 10 rows), total_rows)"
    using assms(2,3,4) by (simp add: extract_rows_wellformed)
  have calls: "llm_calls (snd (explain_results rt w question sql results))
             = llm_calls w @
               (case os_getenv w (lit ''ANTHROPIC_API_KEY'') of
                  None \<Rightarrow> []
                | Some key \<Rightarrow> if key = [] then [] else [?req key])"
    using assms(1) ex
    by (simp add: explain_results_def Let_def messages_create_eq split: option.splits)
  have sent: "explain_results rt w question sql results
                = (bind (llm w (length (llm_calls w)) (?req key)) first_text,
                   w\<lparr>llm_calls := llm_calls w @ [?req key]\<rparr>)"
    if "os_getenv w (lit ''ANTHROPIC_API_KEY'') = Some key" and "key \<noteq> []" for key
    using that assms(1) ex
    by (simp add: explain_results_def Let_def messages_create_eq)
  have answered: "fst (explain_results rt w question sql results) = Inr (str_strip answer)"
    if "os_getenv w (lit ''ANTHROPIC_API_KEY'') = Some key" and "key \<noteq> []"
      and "llm w (length (llm_calls w)) (?req key) = Inr (TextBlock answer # blocks)"
    for key answer blocks
    using sent [OF that(1,2)] that(3) by simp
  have unset: "fst (explain_results rt w question sql results)
                 = Inr (lit ''Error: ANTHROPIC_API_KEY not set'')"
    if "os_getenv w (lit ''ANTHROPIC_API_KEY'') = None"
    using that by (simp add: explain_results_def Let_def)
  have bound: "length (take 10 rows) \<le> 10" by simp
  show ?thesis
  proof (intro conjI allI impI)
    show "extract_rows rt results = Inr (PList (take 10 rows), total_rows)" by (rule ex)
    show "length (take 10 rows) \<le> 10" by (rule bound)
    show "llm_calls (snd (explain_results rt w question sql results))
             = llm_calls w @
               (case os_getenv w (lit ''ANTHROPIC_API_KEY'') of
                  None \<Rightarrow> []
                | Some key \<Rightarrow> if key = [] then [] else [?req key])" by (rule calls)
  next
    fix key
    assume "os_getenv w (lit ''ANTHROPIC_API_KEY'') = Some key \<and> key \<noteq> []"
    then show "explain_results rt w question sql results
                = (bind (llm w (length (llm_calls w)) (?req key)) first_text,
                   w\<lparr>llm_calls := llm_calls w @ [?req key]\<rparr>)"
      using sent by blast
  next
    fix key answer blocks
    assume "os_getenv w (lit ''ANTHROPIC_API_KEY'') = Some key \<and> key \<noteq> [] \<and>
            llm w (length (llm_calls w)) (?req key) = Inr (TextBlock answer # blocks)"
    then show "fst (explain_results rt w question sql results) = Inr (str_strip answer)"
      using answered by blast
  next
    assume "os_getenv w (lit ''ANTHROPIC_API_KEY'') = None"
    then show "fst (explain_results rt w question sql results)
                 = Inr (lit ''Error: ANTHROPIC_API_KEY not set'')"
      by (rule unset)
  qed
qed

theorem explain_results_sample_and_total_witness:
  "map_of [(lit ''result'', PList [])] (lit ''error'') = None
   \<and> dict_get [(lit ''result'', PList [])] (lit ''result'') (PList []) = PList []
   \<and> dict_get [(lit ''result'', PList [])] (lit ''pagination'') (PDict []) = PDict []
   \<and> os_getenv (demo_world (Inr (Response (Inr (PDict []))))) (lit ''ANTHROPIC_API_KEY'')
       = Some (lit ''sk-key'')
   \<and> lit ''sk-key'' \<noteq> []
   \<and> extract_rows demo_runtime [(lit ''result'', PList [])] = Inr (PList [], PInt 0)
   \<and> llm_calls (snd (explain_results demo_runtime (demo_world (Inr (Response (Inr (PDict [])))))
          (lit ''Show samples with methanogenesis'') (lit ''SELECT 1 as test'')
          [(lit ''result'', PList [])]))
       = [explain_request (lit ''sk-key'')
            (explain_prompt (lit ''Show samples with methanogenesis'') (lit ''SELECT 1 as test'')
               (lit ''0'') (lit ''[]''))]
   \<and> fst (explain_results demo_runtime (demo_world (Inr (Response (Inr (PDict [])))))
          (lit ''Show samples with methanogenesis'') (lit ''SELECT 1 as test'')
          [(lit ''result'', PList [])])
       = Inr (lit ''Nothing was found.'')"
proof -
  let ?results = "[(lit ''result'', PList [])]"
  let ?w = "demo_world (Inr (Response (Inr (PDict []))))"
  have e: "map_of ?results (lit ''error'') = None" by simp
  have r: "dict_get ?results (lit ''result'') (PList []) = PList []"
    by (simp add: dict_get_def)
  have p: "dict_get ?results (lit ''pagination'') (PDict []) = PDict []"
    by (simp add: dict_get_def)
  have t: "PInt 0 = (case map_of [] (lit ''total_count'') of
                       None \<Rightarrow> PInt (int (length ([] :: pyval list)))
                     | Some n \<Rightarrow> n)"
    by simp
  have k: "os_getenv ?w (lit ''ANTHROPIC_API_KEY'') = Some (lit ''sk-key'')" by simp
  have n: "lit ''sk-key'' \<noteq> []" by simp
  have a: "llm ?w i req = Inr [TextBlock (lit '' Nothing was found. '')]" for i req
    by (simp add: demo_world_def)
  have s: "str_strip (lit '' Nothing was found. '') = lit ''Nothing was found.''"
    by (simp add: str_strip_def lit_def is_space_def)
  show ?thesis
    using e r p k n a s
      explain_results_sample_and_total [OF e r p t, of demo_runtime ?w
        "lit ''Show samples with methanogenesis''" "lit ''SELECT 1 as test''"]
    by (simp add: py_str_def)
qed

text \<open>
  Claim C8 as stated, for every envelope without an \<open>error\<close> key, fails on two
  envelopes.  The first has no rows and a \<open>pagination\<close> that is \<open>null\<close>: the default
  \<open>{}\<close> covers only the missing key, so \<open>.get\<close> is looked up on \<open>None\<close> and the
  explainer raises \<open>AttributeError\<close>.  The second has a \<open>result\<close> that is \<open>null\<close>:
  the slice raises \<open>TypeError\<close>.  In both the credential is set, the exception leaves
  the explainer, and no request is sent.
\<close>

theorem explain_results_null_pagination_counterexample:
  "map_of [(lit ''result'', PList []), (lit ''pagination'', PNone)] (lit ''error'') = None
   \<and> dict_get [(lit ''result'', PList []), (lit ''pagination'', PNone)] (lit ''result'') (PList [])
       = PList []
   \<and> explain_results demo_runtime (demo_world (Inr (Response (Inr (PDict [])))))
         (lit ''Show samples with methanogenesis'') (lit ''SELECT 1 as test'')
         [(lit ''result'', PList []), (lit ''pagination'', PNone)]
       = (Inl (Exn AttributeError
                (quoted (lit ''NoneType'') @ lit '' object has no attribute '' @ quoted (lit ''get''))),
          demo_world (Inr (Response (Inr (PDict [])))))
   \<and> map_of [(lit ''result'', PNone)] (lit ''error'') = None
   \<and> explain_results demo_runtime (demo_world (Inr (Response (Inr (PDict [])))))
         (lit ''Show samples with methanogenesis'') (lit ''SELECT 1 as test'')
         [(lit ''result'', PNone)]
       = (Inl (Exn TypeError (quoted (lit ''NoneType'') @ lit '' object is not subscriptable'')),
          demo_world (Inr (Response (Inr (PDict [])))))"
  by (simp add: explain_results_def Let_def extract_rows_def dict_get_def no_attribute_def)

end
